theory Spec2Isabelle
  imports Complex_Main "HOL-Library.Char_ord" "HOL-Library.List_Lexorder"
begin

section \<open>Peptide encoders of the MHC class-I lesson notebook\<close>

text \<open>
  The notebook \<^verbatim>\<open>epitope/mhci_lesson.ipynb\<close> encodes peptides with pandas data frames.
  A data frame is modelled by its column labels and its rows of values; the row index is
  always the default \<^verbatim>\<open>RangeIndex\<close> and is left implicit. Strings are lists of 8-bit
  characters, ordered by their codes as Python orders them, and a column label is a string.
  Python exceptions are values of the type \<open>error\<close>.
\<close>

datatype error = KeyError | ValueError | IndexError

record dataframe =
  columns :: "string list"
  vals :: "int list list"

text \<open>\<^verbatim>\<open>codes = ['A', 'C', 'D', ..., 'Y']\<close>: the alphabet, a list of one-letter strings.\<close>

definition codes :: "string list" where
  "codes = [''A'', ''C'', ''D'', ''E'', ''F'', ''G'', ''H'', ''I'', ''K'', ''L'',
            ''M'', ''N'', ''P'', ''Q'', ''R'', ''S'', ''T'', ''V'', ''W'', ''Y'']"

text \<open>\<^verbatim>\<open>pep='ALDFEQEMT'\<close>: the module-level sample peptide.\<close>

definition pep :: string where
  "pep = ''ALDFEQEMT''"

subsection \<open>The pandas operations used by the one-hot encoder\<close>

text \<open>\<^verbatim>\<open>x.split(sep)\<close> for a one-character separator: empty pieces are kept.\<close>

fun str_split :: "char \<Rightarrow> string \<Rightarrow> string list" where
  "str_split sep [] = [[]]"
| "str_split sep (c # cs) =
     (if c = sep then [] # str_split sep cs
      else (case str_split sep cs of [] \<Rightarrow> [[c]] | w # ws \<Rightarrow> (c # w) # ws))"

text \<open>\<^verbatim>\<open>pat in x\<close> on strings: \<open>pat\<close> occurs in \<open>x\<close> as a contiguous piece.\<close>

fun starts_with :: "string \<Rightarrow> string \<Rightarrow> bool" where
  "starts_with [] x = True"
| "starts_with (p # ps) [] = False"
| "starts_with (p # ps) (c # cs) = (p = c \<and> starts_with ps cs)"

fun str_contains :: "string \<Rightarrow> string \<Rightarrow> bool" where
  "str_contains pat [] = (pat = [])"
| "str_contains pat (c # cs) = (starts_with pat (c # cs) \<or> str_contains pat cs)"

text \<open>
  \<^verbatim>\<open>Series.str.get_dummies(sep)\<close>: every string is wrapped in separators and split at
  them; the tags are the distinct non-empty pieces, sorted; the cell for a row and a tag is
  1 when the wrapped tag occurs in the wrapped string.
\<close>

definition get_dummies :: "string list \<Rightarrow> char \<Rightarrow> dataframe" where
  "get_dummies series sep =
     (let arr = map (\<lambda>x. sep # x @ [sep]) series;
          tags = sort (remdups (filter (\<lambda>t. t \<noteq> []) (concat (map (str_split sep) arr))))
      in \<lparr>columns = tags,
          vals = map (\<lambda>x. map (\<lambda>t. if str_contains (sep # t @ [sep]) x then 1 else 0) tags) arr\<rparr>)"

text \<open>\<^verbatim>\<open>pd.DataFrame(np.zeros((n, len(o)), dtype=int), columns=o)\<close>.\<close>

definition zeros_frame :: "nat \<Rightarrow> string list \<Rightarrow> dataframe" where
  "zeros_frame n cs = \<lparr>columns = cs, vals = replicate n (replicate (length cs) 0)\<rparr>"

text \<open>
  \<^verbatim>\<open>a.join(x)\<close> of two frames on the same default index: the columns of \<open>x\<close> are appended
  to each row; pandas raises \<^verbatim>\<open>ValueError\<close> when a column label occurs in both frames.
\<close>

definition join :: "dataframe \<Rightarrow> dataframe \<Rightarrow> error + dataframe" where
  "join a x =
     (if list_ex (\<lambda>c. c \<in> set (columns x)) (columns a) then Inl ValueError
      else Inr \<lparr>columns = columns a @ columns x, vals = map2 (@) (vals a) (vals x)\<rparr>)"

text \<open>\<^verbatim>\<open>a.sort_index(axis=1)\<close>: the columns are reordered by ascending label.\<close>

definition sort_index_columns :: "dataframe \<Rightarrow> dataframe" where
  "sort_index_columns a =
     (let perm = sort_key (\<lambda>i. columns a ! i) [0..<length (columns a)]
      in \<lparr>columns = map (\<lambda>i. columns a ! i) perm,
          vals = map (\<lambda>r. map (\<lambda>i. r ! i) perm) (vals a)\<rparr>)"

text \<open>\<^verbatim>\<open>a.values.flatten()\<close>: the cells in row-major order.\<close>

definition flatten :: "dataframe \<Rightarrow> int list" where
  "flatten a = concat (vals a)"

subsection \<open>One-hot encoding\<close>

text \<open>
  \<^verbatim>\<open>
  def one_hot_encode(seq):
      o = list(set(codes) - set(seq))
      s = pd.DataFrame(list(seq))
      x = pd.DataFrame(np.zeros((len(seq),len(o)),dtype=int),columns=o)
      a = s[0].str.get_dummies(sep=',')
      a = a.join(x)
      a = a.sort_index(axis=1)
      e = a.values.flatten()
      return e
  \<close>
  Python lists the set difference \<open>o\<close> in no fixed order, so the body is modelled with
  that list as an argument, \<open>one_hot_encode_from\<close>; \<open>one_hot_encode\<close> lists it in the
  order of \<open>codes\<close>. A frame built from the empty list has no column, so \<^verbatim>\<open>s[0]\<close>
  raises \<^verbatim>\<open>KeyError\<close> for the empty string.
\<close>

definition one_hot_encode_from :: "string list \<Rightarrow> string \<Rightarrow> error + int list" where
  "one_hot_encode_from o' seq =
     (let s = map (\<lambda>c. [c]) seq;
          x = zeros_frame (length seq) o'
      in if seq = [] then Inl KeyError
         else (case join (get_dummies s CHR '','') x of
                 Inl err \<Rightarrow> Inl err
               | Inr a \<Rightarrow> Inr (flatten (sort_index_columns a))))"

definition one_hot_encode :: "string \<Rightarrow> error + int list" where
  "one_hot_encode seq =
     one_hot_encode_from (filter (\<lambda>c. c \<notin> set (map (\<lambda>c. [c]) seq)) codes) seq"

text \<open>
  Two abbreviations used to state what the encoder computes: the dummy columns that
  \<open>get_dummies\<close> makes for a sequence of letters, and all the columns of the joined and
  sorted frame.
\<close>

definition letter_tags :: "char \<Rightarrow> string \<Rightarrow> string list" where
  "letter_tags sep seq = sort (remdups (map (\<lambda>c. [c]) (filter (\<lambda>c. c \<noteq> sep) seq)))"

definition one_hot_columns :: "string \<Rightarrow> string list" where
  "one_hot_columns seq =
     sort (letter_tags CHR '','' seq @ filter (\<lambda>c. c \<notin> set (map (\<lambda>c. [c]) seq)) codes)"

subsection \<open>Encoders reading a lookup table\<close>

text \<open>
  \<^verbatim>\<open>[table[i] for i in seq]\<close>: one row of the table per letter, \<^verbatim>\<open>KeyError\<close> at a
  letter the table has no column for. The tables themselves (\<^verbatim>\<open>NLF.csv\<close> and
  \<^verbatim>\<open>ep.blosum62\<close>) are loaded from outside the notebook and are parameters here.
\<close>

fun lookup_all :: "(string \<rightharpoonup> 'a) \<Rightarrow> string \<Rightarrow> error + 'a list" where
  "lookup_all table [] = Inr []"
| "lookup_all table (i # seq) =
     (case table [i] of
        None \<Rightarrow> Inl KeyError
      | Some r \<Rightarrow> (case lookup_all table seq of Inl err \<Rightarrow> Inl err | Inr rs \<Rightarrow> Inr (r # rs)))"

text \<open>
  \<^verbatim>\<open>
  def nlf_encode(seq):
      x = pd.DataFrame([nlf[i] for i in seq]).reset_index(drop=True)
      e = x.values.flatten()
      return e
  \<close>
\<close>

definition nlf_encode :: "(string \<rightharpoonup> 'a list) \<Rightarrow> string \<Rightarrow> error + 'a list" where
  "nlf_encode nlf seq =
     (case lookup_all nlf seq of Inl err \<Rightarrow> Inl err | Inr x \<Rightarrow> Inr (concat x))"

text \<open>\<^verbatim>\<open>x.iloc[:,:-4]\<close>: every row loses its last four cells (all of them when it has fewer).\<close>

definition iloc_drop_last4 :: "'a list list \<Rightarrow> 'a list list" where
  "iloc_drop_last4 x = map (\<lambda>r. take (length r - 4) r) x"

text \<open>
  \<^verbatim>\<open>
  def blosum_encode(seq):
      s=list(seq)
      x = pd.DataFrame([blosum[i] for i in seq]).reset_index(drop=True)
      x = x.iloc[:,:-4]
      e = x.values.flatten()
      return e
  \<close>
\<close>

definition blosum_encode :: "(string \<rightharpoonup> 'a list) \<Rightarrow> string \<Rightarrow> error + 'a list" where
  "blosum_encode blosum seq =
     (case lookup_all blosum seq of
        Inl err \<Rightarrow> Inl err
      | Inr x \<Rightarrow> Inr (concat (iloc_drop_last4 x)))"

subsection \<open>The random baseline\<close>

text \<open>
  \<^verbatim>\<open>
  def random_encode(p):
      return [np.random.randint(20) for i in pep]
  \<close>
  The generator of numpy is a state \<open>'g\<close> threaded through the draws; \<open>randint n\<close> is one
  draw below \<open>n\<close> and is a parameter. The comprehension runs over the module-level \<open>pep\<close>.
\<close>

fun draw_each :: "(nat \<Rightarrow> 'g \<Rightarrow> nat \<times> 'g) \<Rightarrow> 'g \<Rightarrow> 'a list \<Rightarrow> nat list \<times> 'g" where
  "draw_each randint g [] = ([], g)"
| "draw_each randint g (i # rest) =
     (case randint 20 g of (v, g') \<Rightarrow>
        (case draw_each randint g' rest of (vs, g'') \<Rightarrow> (v # vs, g'')))"

definition random_encode :: "(nat \<Rightarrow> 'g \<Rightarrow> nat \<times> 'g) \<Rightarrow> 'g \<Rightarrow> string \<Rightarrow> nat list \<times> 'g" where
  "random_encode randint g p = draw_each randint g pep"

subsection \<open>The affinity transform\<close>

text \<open>
  The notebook gives the transform as a formula: \<^verbatim>\<open>log50k = 1-log(ic50) / log(50000)\<close>.
  It is a formula of real numbers and is modelled over \<open>real\<close>.
\<close>

definition to_target :: "real \<Rightarrow> real" where
  "to_target x = 1 - ln x / ln 50000"

text \<open>
  Modelled from the spec: the inverse transform \<open>from_target\<close> is not in the notebook (the
  notebook only uses predictors that return ic50); the specification gives it as
  \<^verbatim>\<open>from_target(log50k) -> ic50 = 50000^(1 - log50k)\<close>.
\<close>

definition from_target :: "real \<Rightarrow> real" where
  "from_target y = 50000 powr (1 - y)"

subsection \<open>Building a predictor\<close>

text \<open>One row of the training table returned by \<^verbatim>\<open>ep.get_training_set\<close>.\<close>

record affinity_record =
  allele_id :: string
  peptide :: string
  ic50 :: real
  pep_length :: nat
  log50k :: real

text \<open>
  \<^verbatim>\<open>data.peptide.apply(lambda x: pd.Series(encoder(x)),1)\<close>: the encoder is applied to the
  peptides in order; the first exception ends the call.
\<close>

fun encode_all :: "(string \<Rightarrow> error + 'v) \<Rightarrow> string list \<Rightarrow> error + 'v list" where
  "encode_all encoder [] = Inr []"
| "encode_all encoder (x # xs) =
     (case encoder x of
        Inl err \<Rightarrow> Inl err
      | Inr v \<Rightarrow> (case encode_all encoder xs of Inl err \<Rightarrow> Inl err | Inr vs \<Rightarrow> Inr (v # vs)))"

text \<open>
  The frame that \<^verbatim>\<open>apply\<close> builds from the encodings, one \<^verbatim>\<open>pd.Series\<close> per row:
  it is as wide as the longest encoding, and a shorter row is filled with \<^verbatim>\<open>NaN\<close>
  (here \<open>None\<close>).
\<close>

definition series_frame :: "'a list list \<Rightarrow> 'a option list list" where
  "series_frame rows =
     (let width = foldr max (map length rows) 0
      in map (\<lambda>r. map Some r @ replicate (width - length r) None) rows)"

definition has_nan :: "'a option list list \<Rightarrow> bool" where
  "has_nan X = list_ex (list_ex (\<lambda>v. v = None)) X"

text \<open>
  \<^verbatim>\<open>reg.fit(X, y)\<close> and \<^verbatim>\<open>reg.predict(X)\<close> of the scikit-learn regressor. Both
  validate their input and raise \<^verbatim>\<open>ValueError\<close> on a frame with \<^verbatim>\<open>NaN\<close>. What they
  do with a valid frame is outside the notebook: \<open>fit\<close> and \<open>predict\<close> are parameters,
  \<open>fit X y\<close> standing for the regressor with the fixed hyperparameters fitted to \<open>X\<close> and
  \<open>y\<close>, and either may raise.
\<close>

definition reg_fit ::
  "('a list list \<Rightarrow> real list \<Rightarrow> error + 'm) \<Rightarrow> 'a option list list \<Rightarrow> real list \<Rightarrow> error + 'm" where
  "reg_fit fit X y = (if has_nan X then Inl ValueError else fit (map (map the) X) y)"

definition reg_predict ::
  "('m \<Rightarrow> 'a list list \<Rightarrow> error + real list) \<Rightarrow> 'm \<Rightarrow> 'a option list list \<Rightarrow> error + real list" where
  "reg_predict predict reg X = (if has_nan X then Inl ValueError else predict reg (map (map the) X))"

text \<open>\<^verbatim>\<open>if encoder==None: encoder=nlf_encode\<close>.\<close>

definition default_encoder ::
  "(string \<rightharpoonup> 'a list) \<Rightarrow> (string \<Rightarrow> error + 'a list) option \<Rightarrow> string \<Rightarrow> error + 'a list" where
  "default_encoder nlf encoder = (case encoder of None \<Rightarrow> nlf_encode nlf | Some enc \<Rightarrow> enc)"

text \<open>
  \<^verbatim>\<open>
  def build_predictor(allele, encoder=None, length=9):
      if encoder==None:
          encoder=nlf_encode
      data = ep.get_training_set(allele, length=length)
      if len(data)<100:
          return
      reg = MLPRegressor(hidden_layer_sizes=(1,), alpha=0.0005, max_iter=1500,
                          activation='logistic', solver='lbfgs', random_state=2)
      X = data.peptide.apply(lambda x: pd.Series(encoder(x)),1)
      y = data.log50k
      reg.fit(X,y)
      return reg
  \<close>
  The dataset provider \<open>get_training_set\<close> is outside the notebook and is a parameter.
  Returning nothing is \<open>None\<close>; the histogram and the printed line are left out. The
  notebook builds predictors with the table encoders and the one-hot encoder, which draw
  no random number, so the encoder is a function of the peptide here.
\<close>

definition build_predictor ::
  "(string \<Rightarrow> nat \<Rightarrow> affinity_record list) \<Rightarrow> ('a list list \<Rightarrow> real list \<Rightarrow> error + 'm) \<Rightarrow>
   (string \<rightharpoonup> 'a list) \<Rightarrow>
   string \<Rightarrow> (string \<Rightarrow> error + 'a list) option \<Rightarrow> nat \<Rightarrow> error + 'm option" where
  "build_predictor get_training_set fit nlf allele encoder len =
     (let enc = default_encoder nlf encoder;
          data = get_training_set allele len
      in if length data < 100 then Inr None
         else (case encode_all enc (map peptide data) of
                 Inl err \<Rightarrow> Inl err
               | Inr V \<Rightarrow>
                   (case reg_fit fit (series_frame V) (map log50k data) of
                      Inl err \<Rightarrow> Inl err
                    | Inr reg \<Rightarrow> Inr (Some reg))))"

subsection \<open>Scoring a predictor\<close>

text \<open>\<^verbatim>\<open>(v<=cutoff).astype(int)\<close>.\<close>

definition binarize :: "real list \<Rightarrow> real \<Rightarrow> int list" where
  "binarize v cutoff = map (\<lambda>x. if x \<le> cutoff then 1 else 0) v"

text \<open>
  \<^verbatim>\<open>metrics.roc_curve(y_true, y_score, pos_label)\<close> of scikit-learn: the thresholds are
  the distinct scores in descending order; at each threshold the true and the false
  positives are the samples scored at least the threshold, and the curve starts at the
  origin. The rates are undefined (an array of \<^verbatim>\<open>nan\<close>, here \<open>None\<close>) when there is no
  positive or no negative sample. Vectors of different lengths raise \<^verbatim>\<open>ValueError\<close>,
  and two empty vectors raise \<^verbatim>\<open>IndexError\<close> where the last count is read. The
  library also drops points lying on a segment between their neighbours, which does not
  change the area under the curve and is not modelled.
\<close>

definition roc_curve ::
  "int list \<Rightarrow> ('s::linorder) list \<Rightarrow> int \<Rightarrow> error + (real list option \<times> real list option)" where
  "roc_curve y_true y_score pos_label =
     (if length y_true \<noteq> length y_score then Inl ValueError
      else if y_true = [] then Inl IndexError
      else
        (let pairs = zip y_true y_score;
             thresholds = rev (sort (remdups y_score));
             tps = map (\<lambda>t. length (filter (\<lambda>(y, s). y = pos_label \<and> t \<le> s) pairs)) thresholds;
             fps = map (\<lambda>t. length (filter (\<lambda>(y, s). y \<noteq> pos_label \<and> t \<le> s) pairs)) thresholds;
             P = length (filter (\<lambda>y. y = pos_label) y_true);
             N = length (filter (\<lambda>y. y \<noteq> pos_label) y_true)
         in Inr (if N = 0 then None else Some (0 # map (\<lambda>f. real f / real N) fps),
                 if P = 0 then None else Some (0 # map (\<lambda>t. real t / real P) tps))))"

text \<open>
  \<^verbatim>\<open>metrics.auc(x, y)\<close>: the area under the points by the trapezoidal rule; \<^verbatim>\<open>nan\<close>
  when a coordinate is.
\<close>

fun trapz :: "real list \<Rightarrow> real list \<Rightarrow> real" where
  "trapz (x1 # x2 # xs) (y1 # y2 # ys) = (x2 - x1) * (y1 + y2) / 2 + trapz (x2 # xs) (y2 # ys)"
| "trapz xs ys = 0"

definition auc :: "real list option \<Rightarrow> real list option \<Rightarrow> real option" where
  "auc x y = (case (x, y) of (Some xs, Some ys) \<Rightarrow> Some (trapz xs ys) | _ \<Rightarrow> None)"

text \<open>
  The two library calls in a row,
  \<^verbatim>\<open>fpr, tpr, thresholds = metrics.roc_curve(true, sc, pos_label=1); r = metrics.auc(fpr, tpr)\<close>:
  the ROC-AUC of a score against a 0/1 label.
\<close>

definition roc_auc :: "int list \<Rightarrow> ('s::linorder) list \<Rightarrow> error + real option" where
  "roc_auc y_true y_score =
     (case roc_curve y_true y_score 1 of
        Inl err \<Rightarrow> Inl err
      | Inr (fpr, tpr) \<Rightarrow> Inr (auc fpr tpr))"

text \<open>
  \<^verbatim>\<open>
  def auc_score(true,sc,cutoff=.426):
      true = (true<=cutoff).astype(int)
      sc = (sc<=cutoff).astype(int)
      fpr, tpr, thresholds = metrics.roc_curve(true, sc, pos_label=1)
      r = metrics.auc(fpr, tpr)
      return  r
  \<close>
\<close>

definition auc_score :: "real list \<Rightarrow> real list \<Rightarrow> real \<Rightarrow> error + real option" where
  "auc_score true sc cutoff = roc_auc (binarize true cutoff) (binarize sc cutoff)"

text \<open>\<^verbatim>\<open>np.mean(res)\<close>: \<^verbatim>\<open>nan\<close> as soon as one value is.\<close>

definition np_mean :: "real option list \<Rightarrow> real option" where
  "np_mean res =
     (if list_ex (\<lambda>r. r = None) res then None
      else Some (sum_list (map the res) / real (length res)))"

text \<open>
  \<^verbatim>\<open>
  def test_predictor(allele, encoder, ax=None):
      reg = MLPRegressor(hidden_layer_sizes=(1,), alpha=0.0005, max_iter=1500,
                          activation='logistic', solver='lbfgs', random_state=2)
      df = ep.get_training_set(allele, length=9)
      X = df.peptide.apply(lambda x: pd.Series(encoder(x)),1)
      y = df.log50k
      res=[]
      for i in range(3):
          X_train, X_test, y_train, y_test = train_test_split(X, y, test_size=0.3)
          reg.fit(X_train, y_train)
          sc = reg.predict(X_test)
          auc = ep.auc_score(y_test,sc,cutoff=.426)
          res.append(auc)
      auc = np.mean(res)
      return auc
  \<close>
  The splitter and the dataset provider are library functions and are parameters, as the
  regressor is: \<open>train_test_split g X y test_size\<close> draws a partition from the state \<open>g\<close> of
  numpy's generator and returns the next state, or raises. The encoder may draw from the
  same generator (the notebook passes \<open>random_encode\<close> too), so it takes and returns the
  state; \<open>pure_encoder\<close> makes such an encoder of one that draws nothing. The routine
  scores with \<^verbatim>\<open>ep.auc_score\<close>, a function of the epitopepredict package that is not in
  the notebook and is the parameter \<open>ep_auc_score\<close>; the notebook's own \<^verbatim>\<open>auc_score\<close>
  above restates it in the same cell, its test \<^verbatim>\<open>#if cutoff!=None:\<close> commented out.
  The plot drawn when \<^verbatim>\<open>ax\<close> is given is left out. \<open>test_rounds\<close> is the loop, with
  the number of rounds left and the list \<open>res\<close>.
\<close>

fun encode_each ::
  "(string \<Rightarrow> 'g \<Rightarrow> (error + 'v) \<times> 'g) \<Rightarrow> string list \<Rightarrow> 'g \<Rightarrow> (error + 'v list) \<times> 'g" where
  "encode_each encoder [] g = (Inr [], g)"
| "encode_each encoder (x # xs) g =
     (case encoder x g of
        (Inl err, g') \<Rightarrow> (Inl err, g')
      | (Inr v, g') \<Rightarrow>
          (case encode_each encoder xs g' of
             (Inl err, g'') \<Rightarrow> (Inl err, g'')
           | (Inr vs, g'') \<Rightarrow> (Inr (v # vs), g'')))"

definition pure_encoder :: "(string \<Rightarrow> error + 'v) \<Rightarrow> string \<Rightarrow> 'g \<Rightarrow> (error + 'v) \<times> 'g" where
  "pure_encoder enc x g = (enc x, g)"

fun test_rounds ::
  "nat \<Rightarrow>
   ('g \<Rightarrow> 'x list \<Rightarrow> real list \<Rightarrow> real \<Rightarrow>
      (error + 'x list \<times> 'x list \<times> real list \<times> real list) \<times> 'g) \<Rightarrow>
   ('x list \<Rightarrow> real list \<Rightarrow> error + 'm) \<Rightarrow> ('m \<Rightarrow> 'x list \<Rightarrow> error + real list) \<Rightarrow>
   (real list \<Rightarrow> real list \<Rightarrow> real \<Rightarrow> error + real option) \<Rightarrow>
   'x list \<Rightarrow> real list \<Rightarrow> 'g \<Rightarrow> real option list \<Rightarrow> (error + real option list) \<times> 'g" where
  "test_rounds 0 train_test_split fit predict ep_auc_score X y g res = (Inr res, g)"
| "test_rounds (Suc n) train_test_split fit predict ep_auc_score X y g res =
     (case train_test_split g X y (3 / 10) of
        (Inl err, g') \<Rightarrow> (Inl err, g')
      | (Inr (X_train, X_test, y_train, y_test), g') \<Rightarrow>
          (case fit X_train y_train of
             Inl err \<Rightarrow> (Inl err, g')
           | Inr reg \<Rightarrow>
               (case predict reg X_test of
                  Inl err \<Rightarrow> (Inl err, g')
                | Inr sc \<Rightarrow>
                    (case ep_auc_score y_test sc (426 / 1000) of
                       Inl err \<Rightarrow> (Inl err, g')
                     | Inr a \<Rightarrow>
                         test_rounds n train_test_split fit predict ep_auc_score X y g'
                           (res @ [a])))))"

definition test_predictor ::
  "(string \<Rightarrow> nat \<Rightarrow> affinity_record list) \<Rightarrow>
   ('g \<Rightarrow> 'a option list list \<Rightarrow> real list \<Rightarrow> real \<Rightarrow>
      (error + 'a option list list \<times> 'a option list list \<times> real list \<times> real list) \<times> 'g) \<Rightarrow>
   ('a list list \<Rightarrow> real list \<Rightarrow> error + 'm) \<Rightarrow> ('m \<Rightarrow> 'a list list \<Rightarrow> error + real list) \<Rightarrow>
   (real list \<Rightarrow> real list \<Rightarrow> real \<Rightarrow> error + real option) \<Rightarrow>
   string \<Rightarrow> (string \<Rightarrow> 'g \<Rightarrow> (error + 'a list) \<times> 'g) \<Rightarrow> 'g \<Rightarrow> (error + real option) \<times> 'g" where
  "test_predictor get_training_set train_test_split fit predict ep_auc_score allele encoder g =
     (let df = get_training_set allele 9
      in case encode_each encoder (map peptide df) g of
           (Inl err, g0) \<Rightarrow> (Inl err, g0)
         | (Inr V, g0) \<Rightarrow>
             (case test_rounds 3 train_test_split (reg_fit fit) (reg_predict predict)
                     ep_auc_score (series_frame V) (map log50k df) g0 [] of
                (Inl err, g') \<Rightarrow> (Inl err, g')
              | (Inr res, g') \<Rightarrow> (Inr (np_mean res), g')))"

subsection \<open>Example inputs\<close>

text \<open>
  Stand-ins for the external parts, used to run the functions above on concrete inputs:
  a lookup table with a row of 19 zeros for each letter of the alphabet; providers whose
  table is a number of copies of one record, 99 copies of one record and one of another,
  or four records with the targets 0.1, 0.5, 0.2 and 0.6; a regressor that always fits
  and always predicts 0.2 and 0.5; and a splitter that rotates the table by the state of
  the generator, holds out all but the first two rows and steps the generator.
\<close>

definition example_nlf :: "string \<rightharpoonup> real list" where
  "example_nlf t = (if t \<in> set codes then Some (replicate 19 0) else None)"

definition example_records :: "string \<Rightarrow> nat \<Rightarrow> string \<Rightarrow> nat \<Rightarrow> affinity_record list" where
  "example_records p k allele len =
     replicate k \<lparr>allele_id = allele, peptide = p, ic50 = 1, pep_length = len, log50k = 1\<rparr>"

definition example_mixed :: "string \<Rightarrow> string \<Rightarrow> string \<Rightarrow> nat \<Rightarrow> affinity_record list" where
  "example_mixed p q allele len = example_records p 99 allele len @ example_records q 1 allele len"

definition example_targets :: "string \<Rightarrow> string \<Rightarrow> nat \<Rightarrow> affinity_record list" where
  "example_targets p allele len =
     map (\<lambda>v. \<lparr>allele_id = allele, peptide = p, ic50 = 1, pep_length = len, log50k = v\<rparr>)
       [1 / 10, 5 / 10, 2 / 10, 6 / 10]"

definition example_fit :: "'a list list \<Rightarrow> real list \<Rightarrow> error + unit" where
  "example_fit X y = Inr ()"

definition example_predict :: "unit \<Rightarrow> 'a list list \<Rightarrow> error + real list" where
  "example_predict reg X = Inr [2 / 10, 5 / 10]"

definition example_split ::
  "nat \<Rightarrow> 'x list \<Rightarrow> real list \<Rightarrow> real \<Rightarrow> (error + 'x list \<times> 'x list \<times> real list \<times> real list) \<times> nat" where
  "example_split g X y test_size =
     (Inr (take 2 (rotate g X), drop 2 (rotate g X), take 2 (rotate g y), drop 2 (rotate g y)),
      Suc g)"

section \<open>Properties of the one-hot encoder\<close>

subsection \<open>Auxiliary facts\<close>

lemma codes_sorted: "sorted codes"
  unfolding codes_def by code_simp

lemma codes_distinct: "distinct codes"
  unfolding codes_def by simp

lemma codes_length: "length codes = 20"
  unfolding codes_def by simp

lemma comma_not_code: "[CHR '',''] \<notin> set codes"
  unfolding codes_def by simp

text \<open>Sorting by a key and then reading the keys is sorting the keys.\<close>

lemma map_insort_key: "map f (insort_key f x xs) = insort (f x) (map f xs)"
  by (induction xs) simp_all

lemma map_sort_key: "map f (sort_key f xs) = sort (map f xs)"
  by (induction xs) (simp_all add: map_insort_key)

text \<open>
  On a series of one-letter strings \<open>get_dummies\<close> makes one column for every distinct
  letter but the separator, and the cell of a row is 1 in the column of its letter.
\<close>

lemma str_split_wrapped:
  "filter (\<lambda>t. t \<noteq> []) (str_split sep [sep, c, sep]) = (if c = sep then [] else [[c]])"
  by simp

lemma pieces_of_letters:
  "filter (\<lambda>t. t \<noteq> []) (concat (map (str_split sep) (map (\<lambda>x. sep # x @ [sep]) (map (\<lambda>c. [c]) seq))))
   = map (\<lambda>c. [c]) (filter (\<lambda>c. c \<noteq> sep) seq)"
  by (induction seq) simp_all

lemma contains_wrapped:
  "d \<noteq> sep \<Longrightarrow> str_contains [sep, d, sep] [sep, c, sep] = (d = c)"
  by auto

lemma letter_tags_set: "set (letter_tags sep seq) = {[c] | c. c \<in> set seq \<and> c \<noteq> sep}"
  by (auto simp: letter_tags_def)

lemma get_dummies_letters:
  "get_dummies (map (\<lambda>c. [c]) seq) sep =
     \<lparr>columns = letter_tags sep seq,
      vals = map (\<lambda>c. map (\<lambda>t. if t = [c] then 1 else 0) (letter_tags sep seq)) seq\<rparr>"
proof -
  have cell: "(if str_contains (sep # t @ [sep]) [sep, c, sep] then 1 else 0)
              = (if t = [c] then 1 else (0::int))"
    if "t \<in> set (letter_tags sep seq)" for t c
  proof -
    from that obtain d where "t = [d]" "d \<noteq> sep" by (auto simp: letter_tags_set)
    then show ?thesis using contains_wrapped [of d sep c] by simp
  qed
  have rows: "map (\<lambda>t. if str_contains (sep # t @ [sep]) [sep, c, sep] then 1 else 0) (letter_tags sep seq)
              = map (\<lambda>t. if t = [c] then 1 else (0::int)) (letter_tags sep seq)" for c
    by (rule map_cong) (simp_all only: cell)
  have arr: "map (\<lambda>x. sep # x @ [sep]) (map (\<lambda>c. [c]) seq) = map (\<lambda>c. [sep, c, sep]) seq"
    by simp
  have tags: "sort (remdups (filter (\<lambda>t. t \<noteq> [])
                (concat (map (str_split sep) (map (\<lambda>c. [sep, c, sep]) seq)))))
              = letter_tags sep seq"
    using pieces_of_letters [of sep seq] by (simp only: arr letter_tags_def)
  show ?thesis
    unfolding get_dummies_def Let_def arr tags
    by (simp only: map_map comp_def rows)
qed

text \<open>
  Joining the dummy columns with the zero columns and sorting the labels: every row of the
  result is the indicator of its letter over the sorted labels.
\<close>

lemma map2_append_replicate:
  "map2 (@) (map f xs) (replicate (length xs) z) = map (\<lambda>x. f x @ z) xs"
  by (simp add: zip_replicate2 comp_def)

lemma permute_row:
  "map (\<lambda>i. map g cs ! i) (sort_key (\<lambda>i. cs ! i) [0..<length cs]) = map g (sort cs)"
proof -
  let ?perm = "sort_key (\<lambda>i. cs ! i) [0..<length cs]"
  have "map (\<lambda>i. map g cs ! i) ?perm = map (\<lambda>i. g (cs ! i)) ?perm"
    by (intro map_cong) simp_all
  also have "\<dots> = map g (map (\<lambda>i. cs ! i) ?perm)" by simp
  also have "map (\<lambda>i. cs ! i) ?perm = sort cs"
    using map_sort_key [of "\<lambda>i. cs ! i" "[0..<length cs]"] by (simp add: map_nth)
  finally show ?thesis .
qed

lemma sort_index_columns_rows:
  "vals (sort_index_columns \<lparr>columns = cs, vals = map (\<lambda>c. map (g c) cs) xs\<rparr>)
   = map (\<lambda>c. map (g c) (sort cs)) xs"
  by (simp add: sort_index_columns_def Let_def comp_def permute_row)

lemma one_hot_encode_from_rows:
  assumes "seq \<noteq> []"
    and "set cs = set codes - set (map (\<lambda>c. [c]) seq)"
  shows "one_hot_encode_from cs seq =
           Inr (concat (map (\<lambda>c. map (\<lambda>t. if t = [c] then 1 else 0)
                                     (sort (letter_tags CHR '','' seq @ cs))) seq))"
proof -
  let ?s = "map (\<lambda>c. [c]) seq"
  let ?tags = "letter_tags CHR '','' seq"
  let ?g = "\<lambda>c t. if t = [c] then 1 else (0::int)"
  let ?a = "\<lparr>columns = ?tags @ cs, vals = map (\<lambda>c. map (?g c) (?tags @ cs)) seq\<rparr>"
  have disjoint: "\<not> list_ex (\<lambda>c. c \<in> set cs) ?tags"
    using assms(2) by (auto simp: list_ex_iff letter_tags_set)
  have zero_row: "replicate (length cs) 0 = map (?g c) cs" if "c \<in> set seq" for c
  proof -
    have "map (?g c) cs = map (\<lambda>t. 0) cs"
      using that assms(2) by (intro map_cong) auto
    then show ?thesis by (simp add: map_replicate_const)
  qed
  have "map2 (@) (map (\<lambda>c. map (?g c) ?tags) seq) (replicate (length seq) (replicate (length cs) 0))
        = map (\<lambda>c. map (?g c) ?tags @ replicate (length cs) 0) seq"
    by (rule map2_append_replicate)
  also have "\<dots> = map (\<lambda>c. map (?g c) (?tags @ cs)) seq"
    by (intro map_cong refl) (simp only: map_append zero_row)
  finally have joined:
    "join (get_dummies ?s CHR '','') (zeros_frame (length seq) cs) = Inr ?a"
    using disjoint by (simp add: join_def get_dummies_letters zeros_frame_def)
  have sorted_rows: "vals (sort_index_columns ?a)
                     = map (\<lambda>c. map (?g c) (sort (?tags @ cs))) seq"
    by (simp only: sort_index_columns_rows)
  show ?thesis
    unfolding one_hot_encode_from_def Let_def joined
    by (simp only: assms(1) if_False sum.case flatten_def sorted_rows)
qed

lemma one_hot_encode_rows:
  assumes "seq \<noteq> []"
  shows "one_hot_encode seq =
           Inr (concat (map (\<lambda>c. map (\<lambda>t. if t = [c] then 1 else 0) (one_hot_columns seq)) seq))"
  unfolding one_hot_encode_def one_hot_columns_def
  by (rule one_hot_encode_from_rows [OF assms]) auto

text \<open>The order in which the set difference is listed does not matter.\<close>

lemma one_hot_encode_any_order:
  assumes "distinct cs" and "set cs = set codes - set (map (\<lambda>c. [c]) seq)"
  shows "one_hot_encode_from cs seq = one_hot_encode seq"
proof (cases "seq = []")
  case True
  then show ?thesis by (simp add: one_hot_encode_def one_hot_encode_from_def)
next
  case False
  let ?o = "filter (\<lambda>c. c \<notin> set (map (\<lambda>c. [c]) seq)) codes"
  let ?tags = "letter_tags CHR '','' seq"
  have o_distinct: "distinct ?o" using codes_distinct by simp
  have o_set: "set ?o = set cs" using assms(2) by auto
  have tags_distinct: "distinct ?tags" by (simp add: letter_tags_def)
  have apart: "set ?tags \<inter> set cs = {}"
    using assms(2) by (auto simp: letter_tags_set)
  have "sort (?tags @ cs) = sort (?tags @ ?o)"
  proof (rule sorted_distinct_set_unique)
    show "distinct (sort (?tags @ cs))"
      using tags_distinct assms(1) apart by simp
    show "distinct (sort (?tags @ ?o))"
      using tags_distinct o_distinct apart o_set by simp
    show "set (sort (?tags @ cs)) = set (sort (?tags @ ?o))"
      using o_set by simp
  qed simp_all
  then show ?thesis
    using one_hot_encode_from_rows [OF False assms(2)] one_hot_encode_rows [OF False]
    by (simp add: one_hot_columns_def)
qed

text \<open>
  The columns of the result are the alphabet and the letters of the sequence outside it,
  the comma apart, in ascending order and without repetition.
\<close>

lemma one_hot_columns_set:
  "set (one_hot_columns seq)
   = set codes \<union> (\<lambda>c. [c]) ` {c \<in> set seq. [c] \<notin> set codes \<and> c \<noteq> CHR '',''}"
  using comma_not_code by (auto simp: one_hot_columns_def letter_tags_set)

lemma one_hot_columns_distinct: "distinct (one_hot_columns seq)"
  using codes_distinct
  by (auto simp: one_hot_columns_def letter_tags_def)

lemma one_hot_columns_sorted: "sorted (one_hot_columns seq)"
  by (simp add: one_hot_columns_def)

lemma one_hot_columns_alphabet:
  assumes "\<forall>c \<in> set seq. [c] \<in> set codes"
  shows "one_hot_columns seq = codes"
proof (rule sorted_distinct_set_unique)
  show "set (one_hot_columns seq) = set codes"
    using assms by (auto simp: one_hot_columns_set)
qed (simp_all add: one_hot_columns_sorted one_hot_columns_distinct codes_sorted codes_distinct)

lemma one_hot_columns_length:
  "length (one_hot_columns seq)
   = 20 + card {c \<in> set seq. [c] \<notin> set codes \<and> c \<noteq> CHR '',''}"
proof -
  let ?out = "{c \<in> set seq. [c] \<notin> set codes \<and> c \<noteq> CHR '',''}"
  have "length (one_hot_columns seq) = card (set (one_hot_columns seq))"
    by (simp add: distinct_card one_hot_columns_distinct)
  also have "\<dots> = card (set codes \<union> (\<lambda>c. [c]) ` ?out)"
    by (simp only: one_hot_columns_set)
  also have "\<dots> = card (set codes) + card ((\<lambda>c. [c]) ` ?out)"
    by (rule card_Un_disjoint) auto
  also have "card (set codes) = 20"
    using distinct_card [OF codes_distinct] by (simp add: codes_length)
  also have "card ((\<lambda>c. [c]) ` ?out) = card ?out"
    by (rule card_image) (simp add: inj_on_def)
  finally show ?thesis .
qed

text \<open>Length, cells and counts of rows of one width laid end to end.\<close>

lemma length_concat_rows:
  "length (concat (map (\<lambda>c. map (g c) cs) xs)) = length xs * length cs"
  by (induction xs) simp_all

lemma nth_concat_rows:
  "i < length xs \<Longrightarrow> j < length cs \<Longrightarrow>
   concat (map (\<lambda>c. map (g c) cs) xs) ! (i * length cs + j) = g (xs ! i) (cs ! j)"
proof (induction xs arbitrary: i)
  case Nil
  then show ?case by simp
next
  case (Cons x xs)
  show ?case
  proof (cases i)
    case 0
    with Cons.prems show ?thesis by (simp add: nth_append)
  next
    case (Suc k)
    with Cons.prems have "k < length xs" by simp
    from Cons.IH [OF this Cons.prems(2)] Suc show ?thesis
      by (simp add: nth_append add.assoc)
  qed
qed

lemma count_list_indicator:
  "count_list (map (\<lambda>t. if t = x then 1 else 0) cs) (1::int) = count_list cs x"
  by (induction cs) simp_all

lemma count_list_concat_rows:
  "\<forall>c \<in> set xs. count_list (f c) v = n \<Longrightarrow> count_list (concat (map f xs)) v = length xs * n"
  by (induction xs) simp_all

lemma count_list_distinct_member:
  "distinct cs \<Longrightarrow> x \<in> set cs \<Longrightarrow> count_list cs x = 1"
  by (induction cs) auto

subsection \<open>Peptides over the alphabet\<close>

text \<open>
  Claim C5. A peptide has a fixed positive length \<open>L\<close>, nine letters throughout the
  notebook. For every peptide of length \<open>L\<close> whose letters all belong to the 20-letter
  alphabet, \<open>one_hot_encode\<close> returns a vector
  of length \<open>L * 20\<close>; the entry at position \<open>i * 20 + j\<close> is 1 exactly when the \<open>j\<close>-th
  letter of the alphabet is the \<open>i\<close>-th letter of the peptide and 0 otherwise, and exactly
  \<open>L\<close> entries are 1.
\<close>

theorem one_hot_encode_alphabet:
  assumes "seq \<noteq> []" and "\<forall>c \<in> set seq. [c] \<in> set codes"
  shows "\<exists>e. one_hot_encode seq = Inr e \<and> length e = length seq * 20 \<and>
             (\<forall>i < length seq. \<forall>j < 20.
                e ! (i * 20 + j) = (if codes ! j = [seq ! i] then 1 else 0)) \<and>
             count_list e 1 = length seq"
proof -
  let ?g = "\<lambda>c t. if t = [c] then 1 else (0::int)"
  let ?e = "concat (map (\<lambda>c. map (?g c) codes) seq)"
  have enc: "one_hot_encode seq = Inr ?e"
    using one_hot_encode_rows [OF assms(1)] one_hot_columns_alphabet [OF assms(2)] by simp
  have len: "length ?e = length seq * 20"
    by (simp only: length_concat_rows codes_length)
  have cell: "?e ! (i * 20 + j) = (if codes ! j = [seq ! i] then 1 else 0)"
    if "i < length seq" "j < 20" for i j
    using nth_concat_rows [of i seq j codes ?g] that by (simp add: codes_length)
  have "\<forall>c \<in> set seq. count_list (map (?g c) codes) 1 = 1"
    using assms(2) by (simp add: count_list_indicator count_list_distinct_member codes_distinct)
  then have ones: "count_list ?e 1 = length seq"
    using count_list_concat_rows [of seq "\<lambda>c. map (?g c) codes" 1 1] by simp
  from enc len cell ones show ?thesis by blast
qed

text \<open>The statement above at the peptide \<^verbatim>\<open>AL\<close>.\<close>

theorem one_hot_encode_alphabet_witness:
  "''AL'' \<noteq> [] \<and> [CHR ''A''] \<in> set codes \<and> [CHR ''L''] \<in> set codes \<and>
   (\<exists>e. one_hot_encode ''AL'' = Inr e \<and> length e = length ''AL'' * 20 \<and>
             (\<forall>i < length ''AL''. \<forall>j < 20.
                e ! (i * 20 + j) = (if codes ! j = [''AL'' ! i] then 1 else 0)) \<and>
             count_list e 1 = length ''AL'')"
proof -
  have h1: "''AL'' \<noteq> []" by simp
  have h2: "\<forall>c \<in> set ''AL''. [c] \<in> set codes" by (simp add: codes_def)
  from h1 h2 one_hot_encode_alphabet [OF h1 h2] show ?thesis by simp
qed

text \<open>
  The empty string, which is no peptide, is not encoded: the frame
  \<^verbatim>\<open>pd.DataFrame(list(''))\<close> has no column \<^verbatim>\<open>0\<close>.
\<close>

lemma one_hot_encode_empty: "one_hot_encode '''' = Inl KeyError"
  by (simp add: one_hot_encode_def one_hot_encode_from_def)

subsection \<open>Letters outside the alphabet\<close>

text \<open>
  Claim C2, as far as the code supports it. The encoder has no check of its letters: for
  every sequence with at least one letter outside the alphabet it raises no error and
  returns a vector, of at least \<open>L * 20\<close> entries.
\<close>

theorem one_hot_encode_unknown_letter:
  assumes "\<exists>c \<in> set seq. [c] \<notin> set codes"
  shows "\<exists>e. one_hot_encode seq = Inr e \<and> length seq * 20 \<le> length e"
proof -
  from assms have "seq \<noteq> []" by auto
  then have "one_hot_encode seq =
      Inr (concat (map (\<lambda>c. map (\<lambda>t. if t = [c] then 1 else 0) (one_hot_columns seq)) seq))"
    by (rule one_hot_encode_rows)
  moreover have "length seq * 20 \<le> length seq * length (one_hot_columns seq)"
    by (simp add: one_hot_columns_length)
  ultimately show ?thesis
    by (simp add: length_concat_rows)
qed

text \<open>The statement above at the sequence \<^verbatim>\<open>AX\<close>.\<close>

theorem one_hot_encode_unknown_letter_witness:
  "(\<exists>c \<in> set ''AX''. [c] \<notin> set codes) \<and>
   (\<exists>e. one_hot_encode ''AX'' = Inr e \<and> length ''AX'' * 20 \<le> length e)"
proof -
  have h: "\<exists>c \<in> set ''AX''. [c] \<notin> set codes" by (simp add: codes_def)
  from h one_hot_encode_unknown_letter [OF h] show ?thesis by blast
qed

text \<open>
  For \<^verbatim>\<open>AX\<close> the encoder returns 42 numbers: the columns are the alphabet with
  \<^verbatim>\<open>X\<close> between \<^verbatim>\<open>W\<close> and \<^verbatim>\<open>Y\<close>.
\<close>

theorem one_hot_encode_unknown_counterexample:
  "one_hot_encode ''AX'' = Inr (1 # replicate 20 0 @ replicate 19 0 @ [1, 0])"
  by code_simp

text \<open>
  Claim C10, as far as the code supports it. A sequence of length \<open>L\<close> with \<open>k \<ge> 1\<close>
  distinct letters outside the alphabet, the comma not counted, is encoded without error
  into \<open>L * (20 + k)\<close> numbers. The comma is the separator given to \<open>get_dummies\<close>, which
  splits at it and so makes no column for it.
\<close>

theorem one_hot_encode_extra_columns:
  assumes "k = card {c \<in> set seq. [c] \<notin> set codes \<and> c \<noteq> CHR '',''}" and "1 \<le> k"
  shows "\<exists>e. one_hot_encode seq = Inr e \<and> length e = length seq * (20 + k)"
proof -
  have "{c \<in> set seq. [c] \<notin> set codes \<and> c \<noteq> CHR '',''} \<noteq> {}"
  proof
    assume "{c \<in> set seq. [c] \<notin> set codes \<and> c \<noteq> CHR '',''} = {}"
    then have "card {c \<in> set seq. [c] \<notin> set codes \<and> c \<noteq> CHR '',''} = 0"
      by (simp only: card.empty)
    with assms show False by simp
  qed
  then have "seq \<noteq> []" by auto
  then have "one_hot_encode seq =
      Inr (concat (map (\<lambda>c. map (\<lambda>t. if t = [c] then 1 else 0) (one_hot_columns seq)) seq))"
    by (rule one_hot_encode_rows)
  then show ?thesis
    by (simp add: length_concat_rows one_hot_columns_length assms(1))
qed

text \<open>The statement above at the sequence \<^verbatim>\<open>AXA\<close>.\<close>

theorem one_hot_encode_extra_columns_witness:
  "(1::nat) = card {c \<in> set ''AXA''. [c] \<notin> set codes \<and> c \<noteq> CHR '',''} \<and> (1::nat) \<le> 1 \<and>
   (\<exists>e. one_hot_encode ''AXA'' = Inr e \<and> length e = length ''AXA'' * (20 + 1))"
proof -
  have "{c \<in> set ''AXA''. [c] \<notin> set codes \<and> c \<noteq> CHR '',''} = {CHR ''X''}"
    by (auto simp: codes_def)
  then have h1: "(1::nat) = card {c \<in> set ''AXA''. [c] \<notin> set codes \<and> c \<noteq> CHR '',''}"
    by simp
  have h2: "(1::nat) \<le> 1" by simp
  from h1 h2 one_hot_encode_extra_columns [OF h1 h2] show ?thesis by blast
qed

text \<open>
  The sequence \<^verbatim>\<open>A,\<close> has length 2 and one letter outside the alphabet, and is
  encoded into 40 numbers, not 42.
\<close>

theorem one_hot_encode_comma_counterexample:
  "one_hot_encode ''A,'' = Inr (1 # replicate 39 0)"
  by code_simp

section \<open>Properties of the BLOSUM encoder\<close>

lemma lookup_all_total:
  "\<forall>c \<in> set seq. table [c] \<noteq> None \<Longrightarrow> lookup_all table seq = Inr (map (\<lambda>c. the (table [c])) seq)"
  by (induction seq) auto

text \<open>
  Claim C6. The substitution matrix is a parameter; BLOSUM62 as distributed has 24
  columns, the last four being \<^verbatim>\<open>B\<close>, \<^verbatim>\<open>Z\<close>, \<^verbatim>\<open>X\<close> and \<^verbatim>\<open>*\<close>. For a matrix
  with a row of 24 entries for every letter of the alphabet and every peptide of length \<open>L\<close>
  over the alphabet, \<open>blosum_encode\<close> returns the rows of the letters, each cut to its
  first 20 entries, one after the other: \<open>L * 20\<close> numbers.
\<close>

theorem blosum_encode_rows:
  assumes "\<forall>c \<in> set seq. [c] \<in> set codes"
    and "\<forall>t \<in> set codes. \<exists>r. blosum t = Some r \<and> length r = 24"
  shows "\<exists>e. blosum_encode blosum seq = Inr e \<and>
             e = concat (map (\<lambda>c. take 20 (the (blosum [c]))) seq) \<and>
             length e = length seq * 20"
proof -
  have row: "blosum [c] \<noteq> None \<and> length (the (blosum [c])) = 24" if "c \<in> set seq" for c
    using assms that by fastforce
  then have "lookup_all blosum seq = Inr (map (\<lambda>c. the (blosum [c])) seq)"
    by (simp add: lookup_all_total)
  then have enc: "blosum_encode blosum seq
                  = Inr (concat (map (\<lambda>c. take (length (the (blosum [c])) - 4) (the (blosum [c]))) seq))"
    by (simp add: blosum_encode_def iloc_drop_last4_def comp_def)
  have rows: "map (\<lambda>c. take (length (the (blosum [c])) - 4) (the (blosum [c]))) seq
              = map (\<lambda>c. take 20 (the (blosum [c]))) seq"
    by (rule map_cong) (simp_all add: row)
  have "length (concat (map (\<lambda>c. take 20 (the (blosum [c]))) seq)) = length seq * 20"
    using row by (induction seq) simp_all
  with enc rows show ?thesis by simp
qed

text \<open>
  The statement above at the peptide \<^verbatim>\<open>AL\<close> and a matrix whose rows start with the
  code of their letter.
\<close>

theorem blosum_encode_rows_witness:
  "[CHR ''A''] \<in> set codes \<and> [CHR ''L''] \<in> set codes \<and>
   list_all (\<lambda>t. length (the ((\<lambda>t. Some (int (of_char (hd t)) # replicate 23 0)) t)) = 24) codes \<and>
   blosum_encode (\<lambda>t. Some (int (of_char (hd t)) # replicate 23 0)) ''AL''
     = Inr (65 # replicate 19 0 @ 76 # replicate 19 0)"
proof -
  let ?T = "\<lambda>t::string. Some (int (of_char (hd t)) # replicate 23 0)"
  have h1: "\<forall>c \<in> set ''AL''. [c] \<in> set codes" by (simp add: codes_def)
  have h2: "\<forall>t \<in> set codes. \<exists>r. ?T t = Some r \<and> length r = 24" by simp
  from blosum_encode_rows [of "''AL''" ?T, OF h1 h2]
  have "blosum_encode ?T ''AL'' = Inr (65 # replicate 19 0 @ 76 # replicate 19 0)"
    by (simp add: numeral_eq_Suc)
  with h1 show ?thesis by (simp add: list_all_iff)
qed

section \<open>Properties of the random baseline\<close>

lemma draw_each_length: "length (fst (draw_each randint g xs)) = length xs"
proof (induction xs arbitrary: g)
  case Nil
  show ?case by simp
next
  case (Cons x xs)
  obtain v g' where r: "randint 20 g = (v, g')" by (cases "randint 20 g")
  obtain vs g'' where d: "draw_each randint g' xs = (vs, g'')"
    by (cases "draw_each randint g' xs")
  from Cons.IH [of g'] d have "length vs = length xs" by simp
  with r d show ?case by simp
qed

text \<open>
  Claim C9 asks for one value per position of the argument \<open>p\<close>. The comprehension of
  \<open>random_encode\<close> runs over the module-level \<open>pep\<close> instead: whatever generator and
  whatever argument, the result has the nine values of \<^verbatim>\<open>ALDFEQEMT\<close> and does not depend
  on the argument.
\<close>

theorem random_encode_ignores_argument:
  "length (fst (random_encode randint g p)) = length pep \<and> length pep = 9 \<and>
   random_encode randint g p = random_encode randint g q"
  by (simp add: random_encode_def draw_each_length) (simp add: pep_def)

section \<open>Properties of the affinity transform\<close>

text \<open>
  Claim C3. \<open>to_target 50000 = 0\<close>, \<open>to_target 1 = 1\<close>, \<open>to_target\<close> is strictly
  decreasing on the positive reals, and \<open>from_target\<close> inverts it there.
\<close>

theorem affinity_transform:
  "to_target 50000 = 0 \<and> to_target 1 = 1 \<and>
   (\<forall>x y. 0 < x \<and> x < y \<longrightarrow> to_target y < to_target x) \<and>
   (\<forall>x. 0 < x \<longrightarrow> from_target (to_target x) = x)"
proof -
  have pos: "0 < ln (50000::real)" by simp
  have a: "to_target 50000 = 0" by (simp add: to_target_def)
  have b: "to_target 1 = 1" by (simp add: to_target_def)
  have c: "to_target y < to_target x" if "0 < x" "x < y" for x y
  proof -
    from that have "ln x < ln y" by simp
    with pos have "ln x / ln 50000 < ln y / ln 50000" by (simp add: divide_strict_right_mono)
    then show ?thesis by (simp add: to_target_def)
  qed
  have d: "from_target (to_target x) = x" if "0 < x" for x
  proof -
    have "from_target (to_target x) = exp (ln x / ln 50000 * ln 50000)"
      by (simp add: from_target_def to_target_def powr_def mult.commute)
    also have "\<dots> = exp (ln x)" using pos by simp
    also have "\<dots> = x" using that by simp
    finally show ?thesis .
  qed
  from a b c d show ?thesis by blast
qed

text \<open>The statement above at 1, 500 and 50000.\<close>

theorem affinity_transform_witness:
  "(0::real) < 1 \<and> (1::real) < 50000 \<and> to_target 50000 < to_target 1 \<and>
   (0::real) < 500 \<and> from_target (to_target 500) = 500"
  using affinity_transform by simp

section \<open>Properties of the trainer\<close>

text \<open>
  The frame of encodings of one length has no \<^verbatim>\<open>NaN\<close> and is handed to \<open>fit\<close> as it
  is; encodings of two lengths leave a \<^verbatim>\<open>NaN\<close> in the shorter row, and \<open>reg_fit\<close>
  raises.
\<close>

lemma frame_width_ge: "r \<in> set rows \<Longrightarrow> length r \<le> foldr max (map length rows) 0"
  by (induction rows) auto

lemma frame_width_le: "\<forall>r \<in> set rows. length r \<le> n \<Longrightarrow> foldr max (map length rows) 0 \<le> n"
  by (induction rows) auto

lemma series_frame_uniform:
  assumes "\<forall>v \<in> set V. length v = n"
  shows "series_frame V = map (map Some) V"
proof -
  have "foldr max (map length V) 0 \<le> n"
    using assms by (intro frame_width_le) simp
  then have "map Some r @ replicate (foldr max (map length V) 0 - length r) None = map Some r"
    if "r \<in> set V" for r
    using assms that by simp
  then show ?thesis
    by (simp add: series_frame_def Let_def)
qed

lemma has_nan_map_Some: "\<not> has_nan (map (map Some) V)"
  by (simp add: has_nan_def list_ex_iff)

lemma map_the_map_Some: "map (map the) (map (map Some) V) = V"
  by (simp add: comp_def)

lemma reg_fit_uniform:
  assumes "\<forall>v \<in> set V. length v = n"
  shows "reg_fit fit (series_frame V) y = fit V y"
  unfolding series_frame_uniform [OF assms] reg_fit_def
  by (simp only: has_nan_map_Some map_the_map_Some if_False)

lemma has_nan_ragged:
  assumes "v \<in> set V" and "w \<in> set V" and "length v < length w"
  shows "has_nan (series_frame V)"
proof -
  let ?width = "foldr max (map length V) 0"
  have "length w \<le> ?width" using assms(2) by (rule frame_width_ge)
  with assms(3) have "0 < ?width - length v" by simp
  then have "None \<in> set (map Some v @ replicate (?width - length v) None)" by simp
  with assms(1) show ?thesis
    by (auto simp: has_nan_def series_frame_def Let_def list_ex_iff)
qed

lemma reg_fit_ragged:
  assumes "v \<in> set V" and "w \<in> set V" and "length v \<noteq> length w"
  shows "reg_fit fit (series_frame V) y = Inl ValueError"
proof -
  have "has_nan (series_frame V)"
  proof (cases "length v < length w")
    case True
    with assms(1,2) show ?thesis by (rule has_nan_ragged)
  next
    case False
    with assms(3) have "length w < length v" by simp
    with assms(2,1) show ?thesis by (rule has_nan_ragged)
  qed
  then show ?thesis by (simp add: reg_fit_def)
qed

lemma encode_all_replicate:
  "encoder x = Inr v \<Longrightarrow> encode_all encoder (replicate k x) = Inr (replicate k v)"
  by (induction k) simp_all

lemma encode_all_replicate_error:
  "encoder x = Inl err \<Longrightarrow> 0 < k \<Longrightarrow> encode_all encoder (replicate k x) = Inl err"
  by (cases k) simp_all

lemma encode_all_append:
  "encode_all encoder xs = Inr vs \<Longrightarrow> encode_all encoder ys = Inr ws \<Longrightarrow>
   encode_all encoder (xs @ ys) = Inr (vs @ ws)"
  by (induction xs arbitrary: vs) (auto split: sum.splits)

lemma one_hot_length_t: "map_sum id length (one_hot_encode ''ALDFEQEMT'') = Inr 180"
  by code_simp

lemma one_hot_length_x: "map_sum id length (one_hot_encode ''ALDFEQEMX'') = Inr 189"
  by code_simp

text \<open>
  Claim C4, as far as the code supports it. With fewer than 100 records in the training
  table, \<open>build_predictor\<close> returns no model, whatever the regressor and the encoder are:
  nothing is encoded or fitted. With at least 100 records, it returns the fitted regressor
  when the encoder accepts every peptide, the encodings have one length and \<open>fit\<close> raises
  nothing. Otherwise no model is returned: an exception of the encoder is raised by
  \<open>build_predictor\<close>, and encodings of different lengths end in the \<^verbatim>\<open>ValueError\<close> of
  \<open>fit\<close>.
\<close>

theorem build_predictor_threshold:
  "(length (get_training_set allele len) < 100 \<longrightarrow>
      build_predictor get_training_set fit nlf allele encoder len = Inr None) \<and>
   (100 \<le> length (get_training_set allele len) \<and>
    encode_all (default_encoder nlf encoder) (map peptide (get_training_set allele len)) = Inr V \<and>
    (\<forall>v \<in> set V. length v = n) \<and>
    fit V (map log50k (get_training_set allele len)) = Inr reg \<longrightarrow>
      build_predictor get_training_set fit nlf allele encoder len = Inr (Some reg)) \<and>
   (100 \<le> length (get_training_set allele len) \<and>
    encode_all (default_encoder nlf encoder) (map peptide (get_training_set allele len)) = Inl err \<longrightarrow>
      build_predictor get_training_set fit nlf allele encoder len = Inl err) \<and>
   (100 \<le> length (get_training_set allele len) \<and>
    encode_all (default_encoder nlf encoder) (map peptide (get_training_set allele len)) = Inr V \<and>
    (\<exists>v \<in> set V. \<exists>w \<in> set V. length v \<noteq> length w) \<longrightarrow>
      build_predictor get_training_set fit nlf allele encoder len = Inl ValueError)"
proof (intro conjI impI)
  assume "length (get_training_set allele len) < 100"
  then show "build_predictor get_training_set fit nlf allele encoder len = Inr None"
    by (simp add: build_predictor_def Let_def)
next
  let ?data = "get_training_set allele len"
  assume h: "100 \<le> length ?data \<and>
             encode_all (default_encoder nlf encoder) (map peptide ?data) = Inr V \<and>
             (\<forall>v \<in> set V. length v = n) \<and> fit V (map log50k ?data) = Inr reg"
  then have "reg_fit fit (series_frame V) (map log50k ?data) = Inr reg"
    by (simp add: reg_fit_uniform [of V n])
  with h show "build_predictor get_training_set fit nlf allele encoder len = Inr (Some reg)"
    by (simp add: build_predictor_def Let_def)
next
  let ?data = "get_training_set allele len"
  assume "100 \<le> length ?data \<and>
          encode_all (default_encoder nlf encoder) (map peptide ?data) = Inl err"
  then show "build_predictor get_training_set fit nlf allele encoder len = Inl err"
    by (simp add: build_predictor_def Let_def)
next
  let ?data = "get_training_set allele len"
  assume h: "100 \<le> length ?data \<and>
             encode_all (default_encoder nlf encoder) (map peptide ?data) = Inr V \<and>
             (\<exists>v \<in> set V. \<exists>w \<in> set V. length v \<noteq> length w)"
  then obtain v w where "v \<in> set V" "w \<in> set V" "length v \<noteq> length w" by blast
  then have "reg_fit fit (series_frame V) (map log50k ?data) = Inl ValueError"
    by (rule reg_fit_ragged)
  with h show "build_predictor get_training_set fit nlf allele encoder len = Inl ValueError"
    by (simp add: build_predictor_def Let_def)
qed

text \<open>
  The statement above with the one-hot encoder at three tables: 99 copies of a record of the
  peptide \<^verbatim>\<open>ALDFEQEMT\<close>, 100 copies of it, and 99 copies followed by a record of
  \<^verbatim>\<open>ALDFEQEMX\<close>, which is encoded into 189 numbers instead of 180.
\<close>

theorem build_predictor_threshold_witness:
  "build_predictor (example_records ''ALDFEQEMT'' 99) example_fit Map.empty
     ''HLA-A*03:01'' (Some one_hot_encode) 9 = Inr None \<and>
   build_predictor (example_records ''ALDFEQEMT'' 100) example_fit Map.empty
     ''HLA-A*03:01'' (Some one_hot_encode) 9 = Inr (Some ()) \<and>
   build_predictor (example_mixed ''ALDFEQEMT'' ''ALDFEQEMX'') example_fit Map.empty
     ''HLA-A*03:01'' (Some one_hot_encode) 9 = Inl ValueError"
proof -
  let ?a = "''HLA-A*03:01''"
  let ?enc = "default_encoder Map.empty (Some one_hot_encode)"
  obtain v where v: "one_hot_encode ''ALDFEQEMT'' = Inr v" "length v = 180"
    using one_hot_length_t by (cases "one_hot_encode ''ALDFEQEMT''") simp_all
  obtain w where w: "one_hot_encode ''ALDFEQEMX'' = Inr w" "length w = 189"
    using one_hot_length_x by (cases "one_hot_encode ''ALDFEQEMX''") simp_all
  note inst = build_predictor_threshold
    [where fit = "example_fit :: int list list \<Rightarrow> real list \<Rightarrow> error + unit"
       and nlf = Map.empty and encoder = "Some one_hot_encode" and allele = ?a and len = 9]
  have small: "length (example_records ''ALDFEQEMT'' 99 ?a 9) < 100"
    by (simp add: example_records_def)
  have none: "build_predictor (example_records ''ALDFEQEMT'' 99) example_fit Map.empty
                ?a (Some one_hot_encode) 9 = Inr None"
    using inst [where get_training_set = "example_records ''ALDFEQEMT'' 99"] small by blast
  have large: "100 \<le> length (example_records ''ALDFEQEMT'' 100 ?a 9) \<and>
               encode_all ?enc (map peptide (example_records ''ALDFEQEMT'' 100 ?a 9))
                 = Inr (replicate 100 v) \<and>
               (\<forall>u \<in> set (replicate 100 v). length u = 180) \<and>
               example_fit (replicate 100 v) (map log50k (example_records ''ALDFEQEMT'' 100 ?a 9))
                 = Inr ()"
    using v by (simp add: example_records_def default_encoder_def encode_all_replicate
        example_fit_def)
  have some: "build_predictor (example_records ''ALDFEQEMT'' 100) example_fit Map.empty
                ?a (Some one_hot_encode) 9 = Inr (Some ())"
    using inst [where get_training_set = "example_records ''ALDFEQEMT'' 100"
        and V = "replicate 100 v" and n = 180 and reg = "()"] large by blast
  have "encode_all ?enc (replicate 99 ''ALDFEQEMT'' @ replicate 1 ''ALDFEQEMX'')
        = Inr (replicate 99 v @ replicate 1 w)"
    using v w by (intro encode_all_append encode_all_replicate) (simp_all add: default_encoder_def)
  then have mixed: "100 \<le> length (example_mixed ''ALDFEQEMT'' ''ALDFEQEMX'' ?a 9) \<and>
               encode_all ?enc (map peptide (example_mixed ''ALDFEQEMT'' ''ALDFEQEMX'' ?a 9))
                 = Inr (replicate 99 v @ replicate 1 w) \<and>
               (\<exists>u \<in> set (replicate 99 v @ replicate 1 w).
                  \<exists>u' \<in> set (replicate 99 v @ replicate 1 w). length u \<noteq> length u')"
  proof (intro conjI)
    show "\<exists>u \<in> set (replicate 99 v @ replicate 1 w).
            \<exists>u' \<in> set (replicate 99 v @ replicate 1 w). length u \<noteq> length u'"
      by (rule bexI [of _ v], rule bexI [of _ w]) (simp_all add: v w)
  qed (simp_all add: example_mixed_def example_records_def)
  have ragged: "build_predictor (example_mixed ''ALDFEQEMT'' ''ALDFEQEMX'') example_fit Map.empty
                ?a (Some one_hot_encode) 9 = Inl ValueError"
    using inst [where get_training_set = "example_mixed ''ALDFEQEMT'' ''ALDFEQEMX''"
        and V = "replicate 99 v @ replicate 1 w"] mixed by blast
  from none some ragged show ?thesis by simp
qed

text \<open>
  A table of 100 records does not always give a model: with the default encoder the
  letter \<^verbatim>\<open>X\<close> has no row in the lookup table, and \<open>build_predictor\<close> raises
  \<^verbatim>\<open>KeyError\<close>.
\<close>

theorem build_predictor_unknown_letter_counterexample:
  "build_predictor (example_records ''ALDFEQEMX'' 100) example_fit example_nlf
     ''HLA-A*03:01'' None 9 = Inl KeyError"
proof -
  have "nlf_encode example_nlf ''ALDFEQEMX'' = Inl KeyError"
    by (simp add: nlf_encode_def example_nlf_def codes_def)
  then have "encode_all (nlf_encode example_nlf) (replicate 100 ''ALDFEQEMX'') = Inl KeyError"
    by (rule encode_all_replicate_error) simp
  then show ?thesis
    by (simp add: build_predictor_def example_records_def default_encoder_def)
qed

section \<open>Properties of the AUC computation\<close>

lemma auc_undefined: "x = None \<or> y = None \<Longrightarrow> auc x y = None"
  by (auto simp: auc_def split: option.splits)

lemma roc_curve_rates:
  "y_true \<noteq> [] \<Longrightarrow> length y_true = length y_score \<Longrightarrow>
   \<exists>fpr tpr. roc_curve y_true y_score pos_label = Inr (fpr, tpr) \<and>
     (filter (\<lambda>y. y \<noteq> pos_label) y_true = [] \<longrightarrow> fpr = None) \<and>
     (filter (\<lambda>y. y = pos_label) y_true = [] \<longrightarrow> tpr = None)"
  by (simp add: roc_curve_def Let_def)

text \<open>
  Claim C7. For true labels that all binarize to the same class, whatever the scores of the
  same number, \<open>auc_score\<close> raises nothing and returns \<^verbatim>\<open>nan\<close>, the undefined value of
  the library: one of the two rates of the ROC curve has a zero denominator. The vectors
  are those of a held-out partition, which has at least one sample.
\<close>

theorem auc_score_single_class:
  assumes "true \<noteq> []" and "length true = length sc"
    and "(\<forall>v \<in> set true. v \<le> cutoff) \<or> (\<forall>v \<in> set true. \<not> v \<le> cutoff)"
  shows "auc_score true sc cutoff = Inr None"
proof -
  let ?labels = "binarize true cutoff"
  let ?scores = "binarize sc cutoff"
  have one_class: "filter (\<lambda>y. y \<noteq> 1) ?labels = [] \<or> filter (\<lambda>y. y = 1) ?labels = []"
    using assms(3) by (auto simp: binarize_def filter_empty_conv)
  have "?labels \<noteq> []" "length ?labels = length ?scores"
    using assms(1,2) by (simp_all add: binarize_def)
  from roc_curve_rates [OF this, of 1] obtain fpr tpr where
    curve: "roc_curve ?labels ?scores 1 = Inr (fpr, tpr)"
    and rates: "filter (\<lambda>y. y \<noteq> 1) ?labels = [] \<longrightarrow> fpr = None"
               "filter (\<lambda>y. y = 1) ?labels = [] \<longrightarrow> tpr = None"
    by blast
  from one_class rates have "fpr = None \<or> tpr = None" by blast
  then have "auc fpr tpr = None" by (rule auc_undefined)
  with curve show ?thesis
    by (simp only: auc_score_def roc_auc_def sum.case prod.case)
qed

text \<open>
  The statement above at two labels below the cutoff 0.426 and at two labels above it.
\<close>

theorem auc_score_single_class_witness:
  "[1 / 10, 2 / 10] \<noteq> ([] :: real list) \<and>
   length [1 / 10, 2 / 10 :: real] = length [3 / 10, 5 / 10 :: real] \<and>
   auc_score [1 / 10, 2 / 10] [3 / 10, 5 / 10] (426 / 1000) = Inr None \<and>
   auc_score [6 / 10, 7 / 10] [3 / 10, 5 / 10] (426 / 1000) = Inr None"
proof -
  have a: "auc_score [1 / 10, 2 / 10] [3 / 10, 5 / 10] (426 / 1000) = Inr None"
    by (rule auc_score_single_class) simp_all
  have b: "auc_score [6 / 10, 7 / 10] [3 / 10, 5 / 10] (426 / 1000) = Inr None"
    by (rule auc_score_single_class) simp_all
  from a b show ?thesis by simp
qed

text \<open>A pair of empty vectors is no partition; the library raises on it.\<close>

lemma auc_score_empty: "auc_score [] [] cutoff = Inl IndexError"
  by (simp add: auc_score_def roc_auc_def roc_curve_def binarize_def)

section \<open>Properties of the evaluation routine\<close>

lemma np_mean_three:
  "np_mean [r1, r2, r3] =
     (if r1 = None \<or> r2 = None \<or> r3 = None then None
      else Some ((the r1 + the r2 + the r3) / 3))"
  by (auto simp: np_mean_def)

lemma test_rounds_step:
  assumes "train_test_split g X y (3 / 10) = (Inr (X_train, X_test, y_train, y_test), g')"
    and "fit X_train y_train = Inr reg"
    and "predict reg X_test = Inr sc"
    and "ep_auc_score y_test sc (426 / 1000) = Inr a"
  shows "test_rounds (Suc n) train_test_split fit predict ep_auc_score X y g res
         = test_rounds n train_test_split fit predict ep_auc_score X y g' (res @ [a])"
  by (simp only: test_rounds.simps assms prod.case sum.case)

text \<open>
  Claim C1, as far as the code supports it. The routine has no parameter for the number of
  repeats: it draws three partitions with \<^verbatim>\<open>test_size=0.3\<close>, one after the other from
  the generator, refits the regressor on each training part and scores the held-out part.
  The score of a repeat is the ROC-AUC between the prediction binarized at the cutoff 0.426
  (\<^verbatim>\<open>sc<=cutoff\<close>) and the true label binarized at the cutoff, the package's
  \<^verbatim>\<open>auc_score\<close> being the function that the notebook restates. The result is the
  arithmetic mean of the three scores, and \<^verbatim>\<open>nan\<close> as soon as one of them is, which
  is the case of a held-out part with a single class. The hypotheses say that no step
  raises, and name the encodings, the three partitions, the fitted regressors, their
  predictions and the three scores.
\<close>

theorem test_predictor_mean_of_three:
  assumes enc: "encode_each encoder (map peptide (get_training_set allele 9)) g = (Inr V, g0)"
    and X: "X = series_frame V"
    and y: "y = map log50k (get_training_set allele 9)"
    and package: "\<forall>t s. ep_auc_score t s (426 / 1000) = auc_score t s (426 / 1000)"
    and split1: "train_test_split g0 X y (3 / 10) = (Inr (X_train1, X_test1, y_train1, y_test1), g1)"
    and split2: "train_test_split g1 X y (3 / 10) = (Inr (X_train2, X_test2, y_train2, y_test2), g2)"
    and split3: "train_test_split g2 X y (3 / 10) = (Inr (X_train3, X_test3, y_train3, y_test3), g3)"
    and fit1: "reg_fit fit X_train1 y_train1 = Inr reg1"
    and fit2: "reg_fit fit X_train2 y_train2 = Inr reg2"
    and fit3: "reg_fit fit X_train3 y_train3 = Inr reg3"
    and predict1: "reg_predict predict reg1 X_test1 = Inr sc1"
    and predict2: "reg_predict predict reg2 X_test2 = Inr sc2"
    and predict3: "reg_predict predict reg3 X_test3 = Inr sc3"
    and auc1: "roc_auc (binarize y_test1 (426 / 1000)) (binarize sc1 (426 / 1000)) = Inr r1"
    and auc2: "roc_auc (binarize y_test2 (426 / 1000)) (binarize sc2 (426 / 1000)) = Inr r2"
    and auc3: "roc_auc (binarize y_test3 (426 / 1000)) (binarize sc3 (426 / 1000)) = Inr r3"
  shows "test_predictor get_training_set train_test_split fit predict ep_auc_score allele encoder g
         = (Inr (if r1 = None \<or> r2 = None \<or> r3 = None then None
                 else Some ((the r1 + the r2 + the r3) / 3)), g3)"
proof -
  have three: "(3::nat) = Suc (Suc (Suc 0))" by simp
  have s1: "ep_auc_score y_test1 sc1 (426 / 1000) = Inr r1"
    and s2: "ep_auc_score y_test2 sc2 (426 / 1000) = Inr r2"
    and s3: "ep_auc_score y_test3 sc3 (426 / 1000) = Inr r3"
    using package by (simp_all only: auc_score_def auc1 auc2 auc3)
  note step = test_rounds_step
    [where train_test_split = train_test_split and fit = "reg_fit fit"
       and predict = "reg_predict predict" and ep_auc_score = ep_auc_score]
  have "test_rounds 3 train_test_split (reg_fit fit) (reg_predict predict) ep_auc_score X y g0 []
        = test_rounds (Suc (Suc 0)) train_test_split (reg_fit fit) (reg_predict predict)
            ep_auc_score X y g1 [r1]"
    by (simp only: three step [OF split1 fit1 predict1 s1] append_Nil)
  also have "\<dots> = test_rounds (Suc 0) train_test_split (reg_fit fit) (reg_predict predict)
                      ep_auc_score X y g2 [r1, r2]"
    by (simp only: step [OF split2 fit2 predict2 s2] append_Cons append_Nil)
  also have "\<dots> = test_rounds 0 train_test_split (reg_fit fit) (reg_predict predict)
                      ep_auc_score X y g3 [r1, r2, r3]"
    by (simp only: step [OF split3 fit3 predict3 s3] append_Cons append_Nil)
  finally have rounds:
    "test_rounds 3 train_test_split (reg_fit fit) (reg_predict predict) ep_auc_score
       (series_frame V) (map log50k (get_training_set allele 9)) g0 []
     = (Inr [r1, r2, r3], g3)"
    by (simp add: X y)
  show ?thesis
    unfolding test_predictor_def Let_def enc prod.case sum.case rounds
    by (simp only: np_mean_three)
qed

lemma encode_each_pure:
  "encode_each (pure_encoder enc) xs g = (encode_all enc xs, g)"
  by (induction xs) (simp_all add: pure_encoder_def split: sum.splits)

lemma has_nan_part:
  "\<not> has_nan X \<Longrightarrow> \<not> has_nan (take k (rotate i X)) \<and> \<not> has_nan (drop k (rotate i X))"
  by (auto simp: has_nan_def list_ex_iff dest: in_set_takeD in_set_dropD)

text \<open>
  The statement above at a table of four records, the splitter that rotates the table by
  the generator state and holds out its second half, and the regressor that predicts 0.2
  and 0.5: the three scores are 1, 0 and 1. With four records of the target 1 every
  held-out part has a single class, the three scores are \<^verbatim>\<open>nan\<close> and so is the result.
\<close>

theorem test_predictor_mean_of_three_witness:
  "test_predictor (example_targets ''ALDFEQEMT'') example_split example_fit example_predict
     auc_score ''HLA-A*03:01'' (pure_encoder one_hot_encode) 0
   = (Inr (Some (2 / 3)), 3) \<and>
   test_predictor (example_records ''ALDFEQEMT'' 4) example_split example_fit example_predict
     auc_score ''HLA-A*03:01'' (pure_encoder one_hot_encode) 0
   = (Inr None, 3)"
proof -
  have scored: "test_predictor (example_targets ''ALDFEQEMT'') example_split example_fit example_predict
       auc_score ''HLA-A*03:01'' (pure_encoder one_hot_encode) 0
     = (Inr (Some (2 / 3)), 3)"
  proof -
    let ?a = "''HLA-A*03:01''"
    let ?y = "map log50k (example_targets ''ALDFEQEMT'' ?a 9)"
    obtain v where v: "one_hot_encode ''ALDFEQEMT'' = Inr v"
      using one_hot_length_t by (cases "one_hot_encode ''ALDFEQEMT''") simp_all
    let ?V = "[v, v, v, v]"
    let ?X = "series_frame ?V"
    have enc: "encode_each (pure_encoder one_hot_encode)
                 (map peptide (example_targets ''ALDFEQEMT'' ?a 9)) (0::nat) = (Inr ?V, 0)"
    proof -
      have "map peptide (example_targets ''ALDFEQEMT'' ?a 9)
            = [''ALDFEQEMT'', ''ALDFEQEMT'', ''ALDFEQEMT'', ''ALDFEQEMT'']"
        by (simp add: example_targets_def)
      then show ?thesis
        by (simp only: encode_each_pure) (simp add: v)
    qed
    have clean: "\<not> has_nan ?X"
      using series_frame_uniform [of ?V "length v"] has_nan_map_Some [of ?V] by simp
    have fit: "reg_fit example_fit (take 2 (rotate i ?X)) t = Inr ()" for i and t :: "real list"
      using has_nan_part [OF clean, of 2 i] by (simp add: reg_fit_def example_fit_def)
    have predict: "reg_predict example_predict () (drop 2 (rotate i ?X)) = Inr [2 / 10, 5 / 10]" for i
      using has_nan_part [OF clean, of 2 i] by (simp add: reg_predict_def example_predict_def)
    have split: "example_split i ?X ?y (3 / 10)
       = (Inr (take 2 (rotate i ?X), drop 2 (rotate i ?X), take 2 (rotate i ?y), drop 2 (rotate i ?y)),
          Suc i)" for i
      by (simp add: example_split_def)
    have auc1: "roc_auc (binarize (drop 2 (rotate 0 ?y)) (426 / 1000))
                  (binarize [2 / 10, 5 / 10] (426 / 1000)) = Inr (Some 1)"
      by (simp add: example_targets_def roc_auc_def roc_curve_def binarize_def auc_def)
    have auc2: "roc_auc (binarize (drop 2 (rotate (Suc 0) ?y)) (426 / 1000))
                  (binarize [2 / 10, 5 / 10] (426 / 1000)) = Inr (Some 0)"
      by (simp add: example_targets_def roc_auc_def roc_curve_def binarize_def auc_def)
    have auc3: "roc_auc (binarize (drop 2 (rotate (Suc (Suc 0)) ?y)) (426 / 1000))
                  (binarize [2 / 10, 5 / 10] (426 / 1000)) = Inr (Some 1)"
      by (simp add: example_targets_def roc_auc_def roc_curve_def binarize_def auc_def)
    have package: "\<forall>t s. auc_score t s (426 / 1000) = auc_score t s (426 / 1000)" by simp
    from test_predictor_mean_of_three
      [where get_training_set = "example_targets ''ALDFEQEMT''" and train_test_split = example_split
         and fit = example_fit and predict = example_predict and ep_auc_score = auc_score
         and encoder = "pure_encoder one_hot_encode" and allele = ?a,
       OF enc refl refl package split split split fit fit fit predict predict predict auc1 auc2 auc3]
    show ?thesis by (simp add: numeral_3_eq_3)
  qed
  have undefined_score: "test_predictor (example_records ''ALDFEQEMT'' 4) example_split example_fit example_predict
       auc_score ''HLA-A*03:01'' (pure_encoder one_hot_encode) 0
     = (Inr None, 3)"
  proof -
    let ?a = "''HLA-A*03:01''"
    let ?y = "map log50k (example_records ''ALDFEQEMT'' 4 ?a 9)"
    obtain v where v: "one_hot_encode ''ALDFEQEMT'' = Inr v"
      using one_hot_length_t by (cases "one_hot_encode ''ALDFEQEMT''") simp_all
    let ?V = "replicate 4 v"
    let ?X = "series_frame ?V"
    have enc: "encode_each (pure_encoder one_hot_encode)
                 (map peptide (example_records ''ALDFEQEMT'' 4 ?a 9)) (0::nat) = (Inr ?V, 0)"
      by (simp only: encode_each_pure) (simp add: example_records_def encode_all_replicate v)
    have clean: "\<not> has_nan ?X"
      using series_frame_uniform [of ?V "length v"] has_nan_map_Some [of ?V] by simp
    have fit: "reg_fit example_fit (take 2 (rotate i ?X)) t = Inr ()" for i and t :: "real list"
      using has_nan_part [OF clean, of 2 i] by (simp add: reg_fit_def example_fit_def)
    have predict: "reg_predict example_predict () (drop 2 (rotate i ?X)) = Inr [2 / 10, 5 / 10]" for i
      using has_nan_part [OF clean, of 2 i] by (simp add: reg_predict_def example_predict_def)
    have split: "example_split i ?X ?y (3 / 10)
       = (Inr (take 2 (rotate i ?X), drop 2 (rotate i ?X), take 2 (rotate i ?y), drop 2 (rotate i ?y)),
          Suc i)" for i
      by (simp add: example_split_def)
    have y: "?y = [1, 1, 1, 1]"
      by (simp add: example_records_def eval_nat_numeral)
    have auc: "roc_auc (binarize (drop 2 (rotate i ?y)) (426 / 1000))
                  (binarize [2 / 10, 5 / 10] (426 / 1000)) = Inr None"
      if "i = 0 \<or> i = Suc 0 \<or> i = Suc (Suc 0)" for i
      using that unfolding y
      by (auto simp: roc_auc_def roc_curve_def binarize_def auc_def)
    have package: "\<forall>t s. auc_score t s (426 / 1000) = auc_score t s (426 / 1000)" by simp
    from test_predictor_mean_of_three
      [where get_training_set = "example_records ''ALDFEQEMT'' 4" and train_test_split = example_split
         and fit = example_fit and predict = example_predict and ep_auc_score = auc_score
         and encoder = "pure_encoder one_hot_encode" and allele = ?a,
       OF enc refl refl package split split split fit fit fit predict predict predict
          auc [of 0] auc [of "Suc 0"] auc [of "Suc (Suc 0)"]]
    show ?thesis by (simp add: numeral_3_eq_3)
  qed
  from scored undefined_score show ?thesis by simp
qed

text \<open>
  The prediction is binarized too. For the labels 0.1, 0.5, 0.6 and the predictions 0.2,
  0.3, 0.4 the notebook's \<open>auc_score\<close> is 1/2, and the ROC-AUC between the continuous
  prediction and the binarized label is 0.
\<close>

theorem auc_score_binarized_counterexample:
  "auc_score [0.1, 0.5, 0.6] [0.2, 0.3, 0.4] 0.426 = Inr (Some (1 / 2)) \<and>
   roc_auc (binarize [0.1, 0.5, 0.6] 0.426) [0.2, 0.3, 0.4 :: real] = Inr (Some 0)"
  by (simp add: auc_score_def roc_auc_def roc_curve_def binarize_def auc_def)

end
